theory Spec2Isabelle
  imports Main "HOL-Library.Word" "HOL-Library.Sublist" "HOL-Library.Signed_Division"
begin

unbundle bit_operations_syntax

section \<open>Protocol constants\<close>

text \<open>
  Modelled from the spec: the constants \<^verbatim>\<open>QTDIR\<close>, \<^verbatim>\<open>DMDIR\<close>, \<^verbatim>\<open>DMAPPEND\<close>, \<^verbatim>\<open>DMEXCL\<close>,
  \<^verbatim>\<open>DMREAD\<close>, \<^verbatim>\<open>DMWRITE\<close>, \<^verbatim>\<open>DMEXEC\<close>, \<^verbatim>\<open>OREAD\<close>, \<^verbatim>\<open>OWRITE\<close>, \<^verbatim>\<open>ORDWR\<close>, \<^verbatim>\<open>OEXEC\<close>,
  \<^verbatim>\<open>OTRUNC\<close>, \<^verbatim>\<open>NOFID\<close>, \<^verbatim>\<open>VERSION9P\<close>, \<^verbatim>\<open>Rversion\<close> and \<^verbatim>\<open>Rcreate\<close>, which \<^verbatim>\<open>vufs.go\<close> takes
  from the package's \<^verbatim>\<open>const.go\<close>; that file is not among the sources. The values are
  those of 9P2000, the protocol the spec names. The spec gives the directory bit as a
  high bit of the qid type (\<^verbatim>\<open>0x80\<close>), the permission bits as the low three bits \<^verbatim>\<open>rwx\<close>,
  \<^verbatim>\<open>NOFID\<close> as \<^verbatim>\<open>0xFFFFFFFF\<close> and the protocol string as \<^verbatim>\<open>"9P2000"\<close>; the qid type of a
  created file is the high byte of \<^verbatim>\<open>perm\<close>, so \<^verbatim>\<open>DMDIR\<close> is \<^verbatim>\<open>QTDIR\<close> shifted left by 24.
  \<^verbatim>\<open>QTDIR\<close> is an untyped Go constant, used at 8, 16 and 32 bits, hence polymorphic in
  the width here.
\<close>

definition QTDIR :: "'a::len word" where
  "QTDIR = 0x80"

definition DMDIR :: "32 word" where
  "DMDIR = 0x80000000"

definition DMAPPEND :: "32 word" where
  "DMAPPEND = 0x40000000"

definition DMEXCL :: "32 word" where
  "DMEXCL = 0x20000000"

definition DMREAD :: "32 word" where
  "DMREAD = 4"

definition DMWRITE :: "32 word" where
  "DMWRITE = 2"

definition DMEXEC :: "32 word" where
  "DMEXEC = 1"

definition OREAD :: "8 word" where
  "OREAD = 0"

definition OWRITE :: "8 word" where
  "OWRITE = 1"

definition ORDWR :: "8 word" where
  "ORDWR = 2"

definition OEXEC :: "8 word" where
  "OEXEC = 3"

definition OTRUNC :: "8 word" where
  "OTRUNC = 16"

definition NOFID :: "32 word" where
  "NOFID = 0xFFFFFFFF"

definition VERSION9P :: string where
  "VERSION9P = ''9P2000''"

definition Rversion :: "8 word" where
  "Rversion = 101"

definition Rcreate :: "8 word" where
  "Rcreate = 115"

section \<open>Data model\<close>

text \<open>
  The structs of \<^verbatim>\<open>vufs.go\<close> (lines 17-65) and of the package's \<^verbatim>\<open>dir.go\<close> and
  \<^verbatim>\<open>fcall.go\<close>. Go pointers are references into an explicit store: a \<^verbatim>\<open>*File\<close> is a
  \<open>file_ref\<close> into \<open>files\<close>, a \<^verbatim>\<open>*Fid\<close> is a \<open>fid_ref\<close> into \<open>fidobjs\<close>. A Go map that was
  never made is \<open>None\<close>: reading it finds nothing, writing it panics.
\<close>

type_synonym file_ref = nat
type_synonym fid_ref = nat
type_synonym Perm = "32 word"

record Qid =
  Path :: "64 word"
  Vers :: "32 word"
  Type :: "8 word"

record Dir =
  Type :: "16 word"
  Dev :: "32 word"
  Qid :: Qid
  Mode :: Perm
  Atime :: "32 word"
  Mtime :: "32 word"
  Length :: "64 word"
  Name :: string
  Uid :: string
  Gid :: string
  Muid :: string

record File = Dir +
  parent :: file_ref
  children :: "(string \<rightharpoonup> file_ref) option"

record Fid =
  fid_file :: file_ref
  fid_uid :: string
  fid_open :: bool

record Conn =
  fids :: "32 word \<rightharpoonup> fid_ref"
  msize :: "32 word"

record Fcall =
  Type :: "8 word"
  Fid :: "32 word"
  Tag :: "16 word"
  Msize :: "32 word"
  Version :: string
  Afid :: "32 word"
  Uname :: string
  Aname :: string
  Newfid :: "32 word"
  Wname :: "string list"
  Name :: string
  Perm :: Perm
  Mode :: "8 word"
  Qid :: Qid
  Wqid :: "Qid list"

text \<open>
  The host file system is an external collaborator. Its answers are an oracle keyed by
  path (a Go \<^verbatim>\<open>error\<close> is its message, \<open>None\<close> is \<^verbatim>\<open>nil\<close>), and every call the server makes
  is appended to \<open>syslog\<close> in order.
\<close>

datatype oflag = O_RDONLY | O_WRONLY | O_RDWR | O_APPEND | O_CREATE | O_EXCL | O_TRUNC

datatype syscall =
  SysOpenFile string "oflag set" "32 word"
| SysWriteString string string
| SysStat string
| SysRemove string

record Stat_t =
  Ino :: "64 word"
  Atim_Unix :: "64 word"

datatype sysinfo = SysNil | SysStat_t Stat_t | SysOther

record FileInfo =
  fi_Name :: string
  fi_Size :: "64 word"
  fi_Mode :: "32 word"
  fi_ModTime_Unix :: "64 word"
  fi_ModTime_UnixNano :: "64 word"
  fi_IsDir :: bool
  fi_Sys :: sysinfo

record host =
  os_OpenFile :: "string \<Rightarrow> string option"
  fp_WriteString :: "string \<Rightarrow> string option"
  fp_Stat :: "string \<Rightarrow> string + FileInfo"
  os_Remove :: "string \<Rightarrow> string option"
  filepath_Join :: "string list \<Rightarrow> string"
  time_Now_Unix :: "64 word"

text \<open>
  Package-level values whose declarations are not among the sources are parameters:
  the server's maximum message size, the default owner, and the \<^verbatim>\<open>Dir\<close> that
  \<^verbatim>\<open>Dir.Null()\<close> leaves behind.
\<close>

record pkg =
  MAX_MSIZE :: "32 word"
  DEFAULT_USER :: string
  nullDir :: Dir

record VuFs =
  Root :: string
  tree_root :: file_ref
  files :: "file_ref \<Rightarrow> File"
  nfiles :: nat
  fidobjs :: "fid_ref \<Rightarrow> Fid"
  nfidobjs :: nat
  conn :: Conn
  rc :: Fcall
  fcallchan :: "Fcall list"
  loadmap :: "string \<rightharpoonup> file_ref"
  syslog :: "syscall list"

datatype 'a outcome = Return 'a | Panic string

section \<open>Authorization\<close>

text \<open>
  \<^verbatim>\<open>CheckPerm\<close>, lines 323-371. The group step of the source is inside a comment
  (lines 349-368, under \<^verbatim>\<open>BUG(mbucc) : groups not implemented\<close>), so it is no part of
  the function.
\<close>

definition CheckPerm :: "File \<Rightarrow> string \<Rightarrow> Perm \<Rightarrow> bool" where
  "CheckPerm f uid perm0 =
     (if uid = [] then False
      else
        let perm = perm0 AND 7;
            fperm = Dir.Mode f AND 7
        in if fperm AND perm = perm then True
           else
             let fperm' = (if Uid f = uid then fperm OR (drop_bit 6 (Dir.Mode f) AND 7) else fperm)
             in if fperm' AND perm = perm then True else False)"

text \<open>
  The reference algorithm of the spec, section 4.E, in the spec's words: the other bits,
  the owner bits when the uid owns the node, the group bits when the uid is a member of
  the group named by the node's gid; grant iff the mask covers the request; the empty
  uid is denied. \<open>member u g\<close> is the users store's answer to "is \<open>u\<close> a member of the
  group named \<open>g\<close>".
\<close>

definition check_perm_ref :: "(string \<Rightarrow> string \<Rightarrow> bool) \<Rightarrow> File \<Rightarrow> string \<Rightarrow> Perm \<Rightarrow> bool" where
  "check_perm_ref member node uid want =
     (let m0 = Dir.Mode node AND 7;
          m1 = (if Uid node = uid then m0 OR (drop_bit 6 (Dir.Mode node) AND 7) else m0);
          m2 = (if member uid (Gid node) then m1 OR (drop_bit 3 (Dir.Mode node) AND 7) else m1)
      in uid \<noteq> [] \<and> m2 AND want = want)"

section \<open>Version negotiation and attach\<close>

text \<open>
  Go's \<^verbatim>\<open>strings.Index(s, sep)\<close>: the index of the first occurrence of \<open>sep\<close> in \<open>s\<close>,
  or \<open>-1\<close>.
\<close>

fun strings_Index :: "string \<Rightarrow> string \<Rightarrow> int" where
  "strings_Index [] sep = (if sep = [] then 0 else - 1)"
| "strings_Index (c # cs) sep =
     (if prefix sep (c # cs) then 0
      else let r = strings_Index cs sep in if r < 0 then - 1 else r + 1)"

text \<open>
  Lines 145-152 of \<^verbatim>\<open>rversion\<close>: the version string is cut at its first \<^verbatim>\<open>.\<close> when that is
  at a positive index, and anything but \<^verbatim>\<open>VERSION9P\<close> becomes \<^verbatim>\<open>unknown\<close>.
\<close>

definition version_reply :: "string \<Rightarrow> string" where
  "version_reply ver0 =
     (let i = strings_Index ver0 ''.'';
          ver1 = (if i > 0 then take (nat i) ver0 else ver0)
      in if ver1 \<noteq> VERSION9P then ''unknown'' else ver1)"

text \<open>
  \<^verbatim>\<open>rversion\<close>, lines 142-178. The request channel is unbuffered: the \<^verbatim>\<open>select\<close> of
  line 164 receives exactly when a sender is blocked on it, and \<open>fcallchan\<close> lists the
  requests of the blocked senders. A handler returns its error message (empty on
  success) and the new state; \<^verbatim>\<open>fcallhandler\<close> (lines 457-463) sends a non-empty message
  as \<^verbatim>\<open>Rerror\<close>.
\<close>

definition rversion :: "pkg \<Rightarrow> VuFs \<Rightarrow> Fcall \<Rightarrow> string \<times> VuFs" where
  "rversion k vu tx =
     (let ver = version_reply (Version tx);
          msz = (if Msize tx > MAX_MSIZE k then MAX_MSIZE k else Msize tx)
      in if ver \<noteq> ''unknown'' \<and> fcallchan vu \<noteq> []
         then (''new session started, dropping this request'',
               vu\<lparr>fcallchan := tl (fcallchan vu)\<rparr>)
         else ([],
               vu\<lparr>conn := (conn vu)\<lparr>msize := msz\<rparr>,
                  rc := (rc vu)\<lparr>Fcall.Type := Rversion, Msize := msz, Version := ver\<rparr>\<rparr>))"

text \<open>\<^verbatim>\<open>rattach\<close>, lines 181-200.\<close>

definition rattach :: "VuFs \<Rightarrow> Fcall \<Rightarrow> string \<times> VuFs" where
  "rattach vu tx =
     (if Aname tx \<noteq> ''/'' then (''can only attach to root directory'', vu)
      else if Afid tx \<noteq> NOFID then (''authentication not supported'', vu)
      else if fids (conn vu) (Fid tx) \<noteq> None then (''fid already in use on this connection'', vu)
      else ([],
            vu\<lparr>fidobjs := (fidobjs vu)(nfidobjs vu :=
                    \<lparr>fid_file = tree_root vu, fid_uid = Uname tx, fid_open = False\<rparr>),
               nfidobjs := Suc (nfidobjs vu),
               conn := (conn vu)\<lparr>fids := (fids (conn vu))(Fid tx \<mapsto> nfidobjs vu)\<rparr>,
               rc := (rc vu)\<lparr>Fcall.Qid := Dir.Qid (files vu (tree_root vu))\<rparr>\<rparr>))"

section \<open>Walk\<close>

text \<open>Reading a Go map: a nil map has no entry.\<close>

definition lookup_child :: "(string \<rightharpoonup> file_ref) option \<Rightarrow> string \<Rightarrow> file_ref option" where
  "lookup_child cs wn = (case cs of None \<Rightarrow> None | Some m \<Rightarrow> m wn)"

text \<open>
  The loop of \<^verbatim>\<open>rwalk\<close>, lines 403-428, from index \<open>i\<close> at node \<open>f\<close>, with the qids
  appended to \<^verbatim>\<open>rc.Wqid\<close> so far. It returns the handler's message when the loop returns
  early, the qid list, and the node reached when the loop runs to its end. The test of
  line 417 reads the \<^verbatim>\<open>Type\<close> field of the embedded \<^verbatim>\<open>Dir\<close> (16 bits) and compares the
  masked value with 1.
\<close>

fun walk :: "(file_ref \<Rightarrow> File) \<Rightarrow> string \<Rightarrow> nat \<Rightarrow> file_ref \<Rightarrow> string list \<Rightarrow> Qid list
    \<Rightarrow> string \<times> Qid list \<times> file_ref option" where
  "walk fs uid i f [] wq = ([], wq, Some f)"
| "walk fs uid i f (wn # wns) wq =
     (if wn = ''..''
      then walk fs uid (Suc i) (parent (fs f)) wns (wq @ [Dir.Qid (fs (parent (fs f)))])
      else
        case lookup_child (children (fs f)) wn of
          None \<Rightarrow>
            if i = 0 then ([CHR 0x27] @ wn @ [CHR 0x27] @ '' not found'', wq, None)
            else ([], wq, None)
        | Some g \<Rightarrow>
            if Dir.Type (fs g) AND QTDIR = 1 \<and> \<not> CheckPerm (fs g) uid DMEXEC
            then if i = 0 then (''permission denied'', wq, None) else ([], wq, None)
            else walk fs uid (Suc i) g wns (wq @ [Dir.Qid (fs g)]))"

text \<open>
  The body of the loop of \<^verbatim>\<open>rwalk\<close>, lines 405-425, as one step of the source: from node
  \<open>f\<close> by name \<open>wn\<close>, \<^verbatim>\<open>..\<close> goes to the parent; any other name is looked up in the child
  map of \<open>f\<close>, and the step returns early when the name is missing or when the test of
  line 417, as the source writes it, holds. \<open>loop_trail\<close> lists the nodes the loop of the
  source enters before its first early return.
\<close>

definition loop_step :: "(file_ref \<Rightarrow> File) \<Rightarrow> string \<Rightarrow> file_ref \<Rightarrow> string \<Rightarrow> file_ref option" where
  "loop_step fs uid f wn =
     (if wn = ''..'' then Some (parent (fs f))
      else
        case lookup_child (children (fs f)) wn of
          None \<Rightarrow> None
        | Some g \<Rightarrow>
            if Dir.Type (fs g) AND QTDIR = 1 \<and> \<not> CheckPerm (fs g) uid DMEXEC then None
            else Some g)"

fun loop_trail :: "(file_ref \<Rightarrow> File) \<Rightarrow> string \<Rightarrow> file_ref \<Rightarrow> string list \<Rightarrow> file_ref list" where
  "loop_trail fs uid f [] = []"
| "loop_trail fs uid f (wn # wns) =
     (case loop_step fs uid f wn of
        None \<Rightarrow> []
      | Some g \<Rightarrow> g # loop_trail fs uid g wns)"

text \<open>
  The walk step in the words of the spec, section 4.H, to compare the source with:
  \<^verbatim>\<open>..\<close> goes to the parent; any other name resolves via the child map, and entering a
  directory (a node whose \<^verbatim>\<open>qid.type\<close> has the directory bit, section 3) requires X
  permission for the walking uid. \<open>spec_trail\<close> lists the nodes entered by the steps that
  succeed before the first step that fails.
\<close>

definition spec_step :: "(file_ref \<Rightarrow> File) \<Rightarrow> string \<Rightarrow> file_ref \<Rightarrow> string \<Rightarrow> file_ref option" where
  "spec_step fs uid f wn =
     (if wn = ''..'' then Some (parent (fs f))
      else
        case lookup_child (children (fs f)) wn of
          None \<Rightarrow> None
        | Some g \<Rightarrow>
            if Qid.Type (Dir.Qid (fs g)) AND QTDIR \<noteq> 0 \<and> \<not> CheckPerm (fs g) uid DMEXEC
            then None
            else Some g)"

fun spec_trail :: "(file_ref \<Rightarrow> File) \<Rightarrow> string \<Rightarrow> file_ref \<Rightarrow> string list \<Rightarrow> file_ref list" where
  "spec_trail fs uid f [] = []"
| "spec_trail fs uid f (wn # wns) =
     (case spec_step fs uid f wn of
        None \<Rightarrow> []
      | Some g \<Rightarrow> g # spec_trail fs uid g wns)"

text \<open>\<^verbatim>\<open>%d\<close> of \<^verbatim>\<open>fmt.Sprintf\<close> on an unsigned value.\<close>

fun decimal :: "nat \<Rightarrow> string" where
  "decimal n =
     (if n < 10 then [char_of (48 + n)]
      else decimal (n div 10) @ [char_of (48 + n mod 10)])"

text \<open>\<^verbatim>\<open>rwalk\<close>, lines 375-437.\<close>

definition rwalk :: "VuFs \<Rightarrow> Fcall \<Rightarrow> string \<times> VuFs" where
  "rwalk vu tx =
     (case fids (conn vu) (Fid tx) of
        None \<Rightarrow> (''fid '' @ decimal (unat (Fid tx)) @ '' not found'', vu)
      | Some p \<Rightarrow>
          let fid = fidobjs vu p in
          if length (Wname tx) > 0 \<and> Dir.Type (files vu (fid_file fid)) AND QTDIR = 1
          then (''not a directory'', vu)
          else if fid_open fid then (''already open'', vu)
          else if length (Wname tx) = 0
          then ([], vu\<lparr>conn := (conn vu)\<lparr>fids := (fids (conn vu))(Newfid tx \<mapsto> p)\<rparr>\<rparr>)
          else if fids (conn vu) (Newfid tx) \<noteq> None then (''already in use'', vu)
          else
            case walk (files vu) (fid_uid fid) 0 (fid_file fid) (Wname tx) (Wqid (rc vu)) of
              (emsg, wq, None) \<Rightarrow> (emsg, vu\<lparr>rc := (rc vu)\<lparr>Wqid := wq\<rparr>\<rparr>)
            | (emsg, wq, Some f) \<Rightarrow>
                ([],
                 vu\<lparr>rc := (rc vu)\<lparr>Wqid := wq\<rparr>,
                    fidobjs := (fidobjs vu)(nfidobjs vu :=
                      \<lparr>fid_file = f, fid_uid = fid_uid fid, fid_open = False\<rparr>),
                    nfidobjs := Suc (nfidobjs vu),
                    conn := (conn vu)\<lparr>fids := (fids (conn vu))(Newfid tx \<mapsto> nfidobjs vu)\<rparr>\<rparr>))"

section \<open>Create\<close>

text \<open>
  \<^verbatim>\<open>openflags\<close>, lines 91-118. The flag word is the set of the \<^verbatim>\<open>os.O_*\<close> flags or-ed
  into it.
\<close>

definition openflags :: "8 word \<Rightarrow> Perm \<Rightarrow> oflag set" where
  "openflags mode perm =
     (let ret0 = (if mode AND 3 = OREAD then {O_RDONLY}
                  else if mode AND 3 = ORDWR then {O_RDWR}
                  else if mode AND 3 = OWRITE then {O_WRONLY}
                  else if mode AND 3 = OEXEC then {O_RDONLY}
                  else {});
          ret1 = (if mode AND OTRUNC \<noteq> 0 then insert O_TRUNC ret0 else ret0);
          ret2 = (if perm AND DMAPPEND \<noteq> 0 then insert O_APPEND ret1 else ret1);
          ret3 = (if perm AND DMEXCL \<noteq> 0 then insert O_EXCL ret2 else ret2)
      in ret3)"

text \<open>
  \<^verbatim>\<open>writeOwnership\<close>, lines 122-136: open the sidecar \<^verbatim>\<open>path.vufs\<close> (mode \<^verbatim>\<open>0600\<close>) and
  write \<^verbatim>\<open>uid:gid\n\<close>. It returns the error and the calls made.
\<close>

definition writeOwnership :: "host \<Rightarrow> syscall list \<Rightarrow> string \<Rightarrow> string \<Rightarrow> string
    \<Rightarrow> string option \<times> syscall list" where
  "writeOwnership h lg path uid gid =
     (let fn = path @ ''.vufs'';
          lg1 = lg @ [SysOpenFile fn {O_TRUNC, O_WRONLY, O_CREATE} 0x180]
      in case os_OpenFile h fn of
           Some e \<Rightarrow> (Some e, lg1)
         | None \<Rightarrow>
             let lg2 = lg1 @ [SysWriteString fn (uid @ '':'' @ gid @ [CHR 0x0A])]
             in case fp_WriteString h fn of
                  Some e \<Rightarrow> (Some e, lg2)
                | None \<Rightarrow> (None, lg2))"

text \<open>\<^verbatim>\<open>info2stat\<close>, lines 533-544.\<close>

definition info2stat :: "FileInfo \<Rightarrow> string + Stat_t" where
  "info2stat info =
     (case fi_Sys info of
        SysNil \<Rightarrow> Inl ''no info.Sys() on this system''
      | SysStat_t st \<Rightarrow> Inr st
      | SysOther \<Rightarrow> Inl ''invalid info.Sys() on this system'')"

text \<open>
  The cleanup that \<^verbatim>\<open>rcreate\<close> writes out twice, lines 280-285 and 289-294: build the
  message, remove the host file, and extend the message when the removal fails.
\<close>

definition create_cleanup :: "host \<Rightarrow> VuFs \<Rightarrow> string \<Rightarrow> string \<Rightarrow> string
    \<Rightarrow> string outcome \<times> VuFs" where
  "create_cleanup h vu ospath fsyspath e =
     (let emsg = fsyspath @ '': '' @ e;
          vu' = vu\<lparr>syslog := syslog vu @ [SysRemove ospath]\<rparr>
      in case os_Remove h ospath of
           None \<Rightarrow> (Return emsg, vu')
         | Some e1 \<Rightarrow> (Return (emsg @ '' (and file was left on disk)''), vu'))"

text \<open>
  Lines 297-320 of \<^verbatim>\<open>rcreate\<close>: the new node (a zero \<^verbatim>\<open>File\<close> with the fields assigned
  there; its child map is never made), its insertion under the parent, and the fid
  table entry replaced by a fresh open \<^verbatim>\<open>Fid\<close>.
\<close>

definition rcreate_insert :: "host \<Rightarrow> VuFs \<Rightarrow> Fcall \<Rightarrow> fid_ref \<Rightarrow> Stat_t
    \<Rightarrow> string outcome \<times> VuFs" where
  "rcreate_insert h vu tx p stat =
     (let fid = fidobjs vu p;
          pref = fid_file fid;
          par = files vu pref;
          uid = fid_uid fid;
          gid = Gid par;
          now = (ucast (time_Now_Unix h) :: 32 word);
          fr = nfiles vu;
          f = \<lparr>Dir.Type = 0, Dev = 0,
               Dir.Qid = \<lparr>Path = Ino stat, Vers = 0,
                          Qid.Type = ucast (drop_bit 24 (Perm tx))\<rparr>,
               Dir.Mode = Perm tx, Atime = now, Mtime = now, Length = 0,
               Dir.Name = Fcall.Name tx, Uid = uid, Gid = gid, Muid = uid,
               parent = pref, children = None\<rparr>
      in case children par of
           None \<Rightarrow> (Panic ''assignment to entry in nil map'', vu)
         | Some m \<Rightarrow>
             (Return [],
              vu\<lparr>files := ((files vu)(fr := f))
                     (pref := par\<lparr>children := Some (m(Fcall.Name tx \<mapsto> fr))\<rparr>),
                 nfiles := Suc fr,
                 fidobjs := (fidobjs vu)(nfidobjs vu :=
                   \<lparr>fid_file = fr, fid_uid = uid, fid_open = True\<rparr>),
                 nfidobjs := Suc (nfidobjs vu),
                 conn := (conn vu)\<lparr>fids := (fids (conn vu))(Fid tx \<mapsto> nfidobjs vu)\<rparr>,
                 rc := (rc vu)\<lparr>Fcall.Type := Rcreate, Fcall.Qid := Dir.Qid f\<rparr>\<rparr>))"

text \<open>Lines 259-295 of \<^verbatim>\<open>rcreate\<close>: the calls to the host.\<close>

definition rcreate_host :: "host \<Rightarrow> VuFs \<Rightarrow> Fcall \<Rightarrow> fid_ref \<Rightarrow> string outcome \<times> VuFs" where
  "rcreate_host h vu tx p =
     (let fid = fidobjs vu p;
          par = files vu (fid_file fid);
          ospath = filepath_Join h [Root vu, Dir.Name par, Fcall.Name tx];
          fsyspath = filepath_Join h [Dir.Name par, Fcall.Name tx];
          goflags = insert O_CREATE (openflags (Fcall.Mode tx) (Perm tx));
          gomode = Perm tx AND 0x1FF;
          vu1 = vu\<lparr>syslog := syslog vu @ [SysOpenFile ospath goflags gomode]\<rparr>
      in case os_OpenFile h ospath of
           Some e \<Rightarrow> (Return (fsyspath @ '': '' @ e), vu1)
         | None \<Rightarrow>
             (case writeOwnership h (syslog vu1) ospath (fid_uid fid) (Gid par) of
                (Some e, lg) \<Rightarrow> (Return (fsyspath @ '': '' @ e), vu1\<lparr>syslog := lg\<rparr>)
              | (None, lg) \<Rightarrow>
                  let vu2 = vu1\<lparr>syslog := lg @ [SysStat ospath]\<rparr>
                  in case fp_Stat h ospath of
                       Inl e \<Rightarrow> create_cleanup h vu2 ospath fsyspath e
                     | Inr info \<Rightarrow>
                         (case info2stat info of
                            Inl e \<Rightarrow> create_cleanup h vu2 ospath fsyspath e
                          | Inr stat \<Rightarrow> rcreate_insert h vu2 tx p stat)))"

text \<open>\<^verbatim>\<open>rcreate\<close>, lines 223-321: the checks of lines 226-254, then the host calls.\<close>

definition rcreate :: "host \<Rightarrow> VuFs \<Rightarrow> Fcall \<Rightarrow> string outcome \<times> VuFs" where
  "rcreate h vu tx =
     (case fids (conn vu) (Fid tx) of
        None \<Rightarrow> (Return ''fid not found'', vu)
      | Some p \<Rightarrow>
          let fid = fidobjs vu p;
              par = files vu (fid_file fid)
          in if Qid.Type (Dir.Qid par) AND QTDIR = 0
             then (Return (Dir.Name par @ '' is not a directory''), vu)
             else if Fcall.Name tx = ''.'' \<or> Fcall.Name tx = ''..''
             then (Return (Fcall.Name tx @ '' invalid name''), vu)
             else if \<not> CheckPerm par (fid_uid fid) DMWRITE
             then (Return ''permission denied'', vu)
             else if lookup_child (children par) (Fcall.Name tx) \<noteq> None
             then (Return ''already exists'', vu)
             else if Perm tx AND QTDIR = 1 \<and> Fcall.Mode tx AND 3 \<noteq> OREAD
             then (Return ''can only create a directory in read mode'', vu)
             else rcreate_host h vu tx p)"

section \<open>Building the tree\<close>

text \<open>
  \<^verbatim>\<open>buildfile\<close>, lines 546-599. \<^verbatim>\<open>f.Null()\<close> resets the embedded \<^verbatim>\<open>Dir\<close> to \<open>nullDir\<close>;
  the assignments of lines 558-596 follow. Line 571 or-s \<^verbatim>\<open>QTDIR\<close> into \<^verbatim>\<open>f.Qid.Vers\<close>;
  no line assigns \<^verbatim>\<open>f.Qid.Type\<close>.
\<close>

definition buildfile :: "pkg \<Rightarrow> host \<Rightarrow> VuFs \<Rightarrow> string \<Rightarrow> FileInfo
    \<Rightarrow> (string + file_ref) outcome \<times> VuFs" where
  "buildfile k h vu ospath info =
     (case info2stat info of
        Inl e \<Rightarrow> (Return (Inl e), vu)
      | Inr stat \<Rightarrow>
          let d0 = nullDir k;
              vers0 = (word_of_int (sint (fi_ModTime_UnixNano info) sdiv 1000000) :: 32 word);
              mode0 = fi_Mode info AND 0x1FF;
              fr = nfiles vu;
              f0 = \<lparr>Dir.Type = Dir.Type d0, Dev = Dev d0,
                    Dir.Qid = \<lparr>Path = Ino stat,
                               Vers = (if fi_IsDir info then vers0 OR QTDIR else vers0),
                               Qid.Type = Qid.Type (Dir.Qid d0)\<rparr>,
                    Dir.Mode = (if fi_IsDir info then mode0 OR DMDIR else mode0),
                    Atime = ucast (Atim_Unix stat),
                    Mtime = ucast (fi_ModTime_Unix info),
                    Length = (if fi_IsDir info then 0 else fi_Size info),
                    Dir.Name = fi_Name info,
                    Uid = DEFAULT_USER k, Gid = DEFAULT_USER k, Muid = DEFAULT_USER k,
                    parent = fr, children = Some Map.empty\<rparr>
          in if ospath \<noteq> Root vu
             then
               let parentpath = filepath_Join h [ospath, ''..'']
               in case loadmap vu parentpath of
                    None \<Rightarrow>
                      (Return (Inl (''parent '' @ [CHR 0x27] @ parentpath @ [CHR 0x27]
                         @ '' not in loadmap for '' @ [CHR 0x27] @ ospath @ [CHR 0x27])), vu)
                  | Some pr \<Rightarrow>
                      (case children (files vu pr) of
                         None \<Rightarrow> (Panic ''assignment to entry in nil map'', vu)
                       | Some m \<Rightarrow>
                           (Return (Inr fr),
                            vu\<lparr>files := ((files vu)(fr := f0\<lparr>parent := pr\<rparr>))
                                   (pr := (files vu pr)
                                      \<lparr>children := Some (m(fi_Name info \<mapsto> fr))\<rparr>),
                               nfiles := Suc fr\<rparr>))
             else
               (Return (Inr fr),
                vu\<lparr>files := (files vu)
                       (fr := f0\<lparr>Dir.Name := ''/'', parent := fr, Dir.Mode := 0x1FF\<rparr>),
                   nfiles := Suc fr\<rparr>))"

text \<open>\<^verbatim>\<open>buildnode\<close>, lines 602-617: the callback of \<^verbatim>\<open>filepath.Walk\<close>.\<close>

definition buildnode :: "pkg \<Rightarrow> host \<Rightarrow> VuFs \<Rightarrow> string \<Rightarrow> FileInfo \<Rightarrow> string option
    \<Rightarrow> string option outcome \<times> VuFs" where
  "buildnode k h vu path info err =
     (case err of
        Some e \<Rightarrow> (Return (Some e), vu)
      | None \<Rightarrow>
          (case buildfile k h vu path info of
             (Panic m, vu') \<Rightarrow> (Panic m, vu')
           | (Return (Inl e), vu') \<Rightarrow> (Return (Some e), vu')
           | (Return (Inr f), vu') \<Rightarrow>
               (Return None, vu'\<lparr>loadmap := (loadmap vu')(path \<mapsto> f)\<rparr>)))"

text \<open>
  \<^verbatim>\<open>buildtree\<close>, lines 621-648. \<^verbatim>\<open>filepath.Walk\<close> calls \<^verbatim>\<open>buildnode\<close> on the root and then on
  every entry below it, and stops at the first error; the entries it visits, in its
  order, are the list \<open>entries\<close>.
\<close>

fun walk_entries :: "pkg \<Rightarrow> host \<Rightarrow> VuFs \<Rightarrow> (string \<times> FileInfo \<times> string option) list
    \<Rightarrow> string option outcome \<times> VuFs" where
  "walk_entries k h vu [] = (Return None, vu)"
| "walk_entries k h vu ((path, info, err) # es) =
     (case buildnode k h vu path info err of
        (Return None, vu') \<Rightarrow> walk_entries k h vu' es
      | (Return (Some e), vu') \<Rightarrow> (Return (Some e), vu')
      | (Panic m, vu') \<Rightarrow> (Panic m, vu'))"

definition buildtree :: "pkg \<Rightarrow> host \<Rightarrow> VuFs \<Rightarrow> (string \<times> FileInfo \<times> string option) list
    \<Rightarrow> string option outcome \<times> VuFs" where
  "buildtree k h vu entries =
     (case walk_entries k h (vu\<lparr>loadmap := Map.empty\<rparr>) entries of
        (Return None, vu') \<Rightarrow>
          (case loadmap vu' (Root vu') of
             None \<Rightarrow>
               (Return (Some (''didn'' @ [CHR 0x27] @ ''t load file for root dir ''
                  @ [CHR 0x27] @ Root vu' @ [CHR 0x27])), vu')
           | Some f \<Rightarrow> (Return None, vu'\<lparr>tree_root := f\<rparr>))
      | (Return (Some e), vu') \<Rightarrow> (Return (Some e), vu')
      | (Panic m, vu') \<Rightarrow> (Panic m, vu'))"

section \<open>A concrete server\<close>

text \<open>
  Concrete values on which the handlers are run below: a host on which every call
  succeeds, a backing root \<^verbatim>\<open>/srv\<close> holding one regular file \<^verbatim>\<open>/srv/hello\<close>, and the tree
  that \<^verbatim>\<open>buildtree\<close> makes of it.
\<close>

definition pkg0 :: pkg where
  "pkg0 = \<lparr>MAX_MSIZE = 8216, DEFAULT_USER = ''adm'',
           nullDir = \<lparr>Dir.Type = - 1, Dev = - 1,
                       Dir.Qid = \<lparr>Path = - 1, Vers = - 1, Qid.Type = - 1\<rparr>,
                       Dir.Mode = - 1, Atime = - 1, Mtime = - 1, Length = - 1,
                       Dir.Name = [], Uid = [], Gid = [], Muid = []\<rparr>\<rparr>"

definition join0 :: "string list \<Rightarrow> string" where
  "join0 parts =
     (case parts of
        [a, b] \<Rightarrow> (if b = ''..'' then ''/srv'' else if a = ''/'' then a @ b else a @ ''/'' @ b)
      | [a, b, c] \<Rightarrow> (if b = ''/'' then a @ ''/'' @ c else a @ ''/'' @ b @ ''/'' @ c)
      | _ \<Rightarrow> concat parts)"

definition info0 :: "string \<Rightarrow> bool \<Rightarrow> 64 word \<Rightarrow> FileInfo" where
  "info0 name isdir ino =
     \<lparr>fi_Name = name, fi_Size = 12, fi_Mode = 0x1ED, fi_ModTime_Unix = 0,
      fi_ModTime_UnixNano = 3000000, fi_IsDir = isdir,
      fi_Sys = SysStat_t \<lparr>Ino = ino, Atim_Unix = 1700000000\<rparr>\<rparr>"

definition host0 :: host where
  "host0 = \<lparr>os_OpenFile = (\<lambda>path. None), fp_WriteString = (\<lambda>path. None),
            fp_Stat = (\<lambda>path. Inr (info0 path False 77)), os_Remove = (\<lambda>path. None),
            filepath_Join = join0, time_Now_Unix = 1700000100\<rparr>"

definition vu_empty :: VuFs where
  "vu_empty =
     \<lparr>Root = ''/srv'', tree_root = 0,
      files = (\<lambda>r. \<lparr>Dir.Type = 0, Dev = 0, Dir.Qid = \<lparr>Path = 0, Vers = 0, Qid.Type = 0\<rparr>,
                    Dir.Mode = 0, Atime = 0, Mtime = 0, Length = 0, Dir.Name = [],
                    Uid = [], Gid = [], Muid = [], parent = 0, children = None\<rparr>),
      nfiles = 0,
      fidobjs = (\<lambda>r. \<lparr>fid_file = 0, fid_uid = [], fid_open = False\<rparr>),
      nfidobjs = 0,
      conn = \<lparr>fids = Map.empty, msize = 8216\<rparr>,
      rc = \<lparr>Fcall.Type = 0, Fid = 0, Tag = 0, Msize = 0, Version = [], Afid = 0,
            Uname = [], Aname = [], Newfid = 0, Wname = [], Fcall.Name = [], Perm = 0,
            Fcall.Mode = 0, Fcall.Qid = \<lparr>Path = 0, Vers = 0, Qid.Type = 0\<rparr>, Wqid = []\<rparr>,
      fcallchan = [], loadmap = Map.empty, syslog = []\<rparr>"

definition boot :: "pkg \<Rightarrow> VuFs" where
  "boot k =
     snd (buildtree k host0 vu_empty
            [(''/srv'', info0 ''srv'' True 1, None),
             (''/srv/hello'', info0 ''hello'' False 2, None)])"

definition vu_booted :: VuFs where
  "vu_booted = boot pkg0"

text \<open>Requests: the T-messages used below, all other fields zero.\<close>

definition Tattach :: "32 word \<Rightarrow> string \<Rightarrow> Fcall" where
  "Tattach fid uname = (rc vu_empty)\<lparr>Fid := fid, Afid := NOFID, Uname := uname, Aname := ''/''\<rparr>"

definition Twalk :: "32 word \<Rightarrow> 32 word \<Rightarrow> string list \<Rightarrow> Fcall" where
  "Twalk fid newfid wname = (rc vu_empty)\<lparr>Fid := fid, Newfid := newfid, Wname := wname\<rparr>"

definition Tcreate :: "32 word \<Rightarrow> string \<Rightarrow> Perm \<Rightarrow> 8 word \<Rightarrow> Fcall" where
  "Tcreate fid name perm mode =
     (rc vu_empty)\<lparr>Fid := fid, Fcall.Name := name, Perm := perm, Fcall.Mode := mode\<rparr>"

definition Tversion :: "32 word \<Rightarrow> string \<Rightarrow> Fcall" where
  "Tversion msz ver = (rc vu_empty)\<lparr>Msize := msz, Version := ver\<rparr>"

text \<open>
  \<open>alice\<close> attaches on fid 0 and creates the directory \<^verbatim>\<open>d\<close> with \<^verbatim>\<open>perm = DMDIR|0700\<close>;
  then \<open>bob\<close> attaches on fid 1.
\<close>

definition vu_alice :: VuFs where
  "vu_alice = snd (rattach vu_booted (Tattach 0 ''alice''))"

definition vu_alice_d :: VuFs where
  "vu_alice_d = snd (rcreate host0 vu_alice (Tcreate 0 ''d'' (DMDIR OR 0x1C0) OREAD))"

definition vu_bob :: VuFs where
  "vu_bob = snd (rattach vu_alice_d (Tattach 1 ''bob''))"

text \<open>
  Instead, \<open>alice\<close> creates the file \<^verbatim>\<open>g\<close> with \<^verbatim>\<open>perm = 0070\<close>; its group is the root's,
  \<^verbatim>\<open>adm\<close>. In the users table \<^verbatim>\<open>1:adm:\<close>, \<^verbatim>\<open>2:alice:\<close>, \<^verbatim>\<open>3:bob:adm\<close> the only membership
  is that of \<open>bob\<close> in \<open>adm\<close>.
\<close>

definition vu_alice_g :: VuFs where
  "vu_alice_g = snd (rcreate host0 vu_alice (Tcreate 0 ''g'' 0x38 OREAD))"

definition member0 :: "string \<Rightarrow> string \<Rightarrow> bool" where
  "member0 u g = (u = ''bob'' \<and> g = ''adm'')"

text \<open>
  A host on which the sidecar of \<^verbatim>\<open>/srv/x\<close> cannot be opened, and one on which the
  stat of the created file fails and so does its removal.
\<close>

definition host_sidecar_fails :: host where
  "host_sidecar_fails =
     host0\<lparr>os_OpenFile := (\<lambda>path. if path = ''/srv/x.vufs'' then Some ''disk full'' else None)\<rparr>"

definition host_stat_fails :: host where
  "host_stat_fails =
     host0\<lparr>fp_Stat := (\<lambda>path. Inl ''stat failed''),
           os_Remove := (\<lambda>path. Some ''busy'')\<rparr>"

text \<open>
  From \<open>vu_alice\<close>: a walk of no names from fid 0 to fid 5, then a create of \<^verbatim>\<open>x\<close>
  through fid 0.
\<close>

definition vu_alias :: VuFs where
  "vu_alias = snd (rwalk vu_alice (Twalk 0 5 []))"

definition vu_alias_created :: VuFs where
  "vu_alias_created = snd (rcreate host0 vu_alias (Tcreate 0 ''x'' 0x1A4 OWRITE))"

text \<open>
  The record a fid number stands for: the table entry, dereferenced.
\<close>

definition fid_of :: "VuFs \<Rightarrow> 32 word \<Rightarrow> Fid option" where
  "fid_of vu n = map_option (fidobjs vu) (fids (conn vu) n)"

section \<open>Properties of the authorization check\<close>

lemma CheckPerm_mask:
  "CheckPerm f uid p =
     (uid \<noteq> [] \<and>
      ((if Uid f = uid then (Dir.Mode f AND 7) OR (drop_bit 6 (Dir.Mode f) AND 7)
        else Dir.Mode f AND 7) AND (p AND 7)) = p AND 7)"
  by (auto simp: CheckPerm_def Let_def bit_eq_iff bit_simps)

lemma mask_subset_mono:
  fixes m p p' :: "'a::len word"
  assumes "p' AND p = p'" and "m AND (p AND 7) = p AND 7"
  shows "m AND (p' AND 7) = p' AND 7"
proof -
  have "p' AND 7 = (p AND 7) AND (p' AND 7)"
    using assms(1) by (metis and.assoc and.commute and.left_idem)
  then have "m AND (p' AND 7) = (m AND (p AND 7)) AND (p' AND 7)"
    by (metis and.assoc)
  with assms(2) \<open>p' AND 7 = (p AND 7) AND (p' AND 7)\<close> show ?thesis
    by simp
qed

text \<open>
  C8. \<^verbatim>\<open>CheckPerm\<close> is monotone in the requested permission: when the bits of \<open>p'\<close> are
  among the bits of \<open>p\<close> and \<open>p\<close> is granted to \<open>u\<close> on \<open>n\<close>, then \<open>p'\<close> is granted too.
  In particular a grant of \<^verbatim>\<open>rw\<close> (6) gives a grant of \<^verbatim>\<open>r\<close> (4).
\<close>

theorem CheckPerm_monotone:
  assumes "p' AND p = p'" and "CheckPerm n u p"
  shows "CheckPerm n u p'"
  using assms unfolding CheckPerm_mask
  by (auto intro: mask_subset_mono)

section \<open>The concrete server, evaluated\<close>

lemmas boot_defs = vu_booted_def boot_def buildtree_def buildnode_def buildfile_def info2stat_def
  info0_def host0_def pkg0_def vu_empty_def join0_def QTDIR_def DMDIR_def Let_def

lemma booted_root:
  "files vu_booted 0 =
     \<lparr>Dir.Type = - 1, Dev = - 1,
      Dir.Qid = \<lparr>Path = 1, Vers = 131, Qid.Type = - 1\<rparr>,
      Dir.Mode = 0x1FF, Atime = 1700000000, Mtime = 0, Length = 0,
      Dir.Name = ''/'', Uid = ''adm'', Gid = ''adm'', Muid = ''adm'',
      parent = 0, children = Some [''hello'' \<mapsto> 1]\<rparr>"
  by (simp add: boot_defs)

lemma booted_fields:
  "tree_root vu_booted = 0" "nfiles vu_booted = 2" "nfidobjs vu_booted = 0"
  "fids (conn vu_booted) = Map.empty" "Root vu_booted = ''/srv''"
  "fcallchan vu_booted = []" "syslog vu_booted = []" "rc vu_booted = rc vu_empty"
  "fidobjs vu_booted = fidobjs vu_empty"
  by (simp_all add: boot_defs)

theorem CheckPerm_monotone_witness:
  "(4 :: 32 word) AND 6 = 4 \<and> CheckPerm (files vu_booted 0) ''alice'' 6
   \<and> CheckPerm (files vu_booted 0) ''alice'' 4"
  using CheckPerm_monotone [of 4 6 "files vu_booted 0" "''alice''"]
  by (simp add: booted_root CheckPerm_def)

section \<open>Attach\<close>

lemma CheckPerm_anonymous: "\<not> CheckPerm f [] perm"
  by (simp add: CheckPerm_def)

text \<open>
  C10. \<^verbatim>\<open>rattach\<close> takes no users store. For every uname, the empty one included, an
  attach with \<^verbatim>\<open>aname = "/"\<close>, \<^verbatim>\<open>afid = NOFID\<close> and a fid that is not in the table succeeds,
  binds the fid to a fresh record at the root that carries the uname as uid and is not
  open, and replies the root's qid. When the uname is empty, every \<^verbatim>\<open>CheckPerm\<close> with that
  fid's uid denies, whatever the node and the permission.
\<close>

theorem rattach_any_uname:
  assumes "Aname tx = ''/''" and "Afid tx = NOFID" and "fids (conn vu) (Fid tx) = None"
  shows "fst (rattach vu tx) = []
    \<and> fids (conn (snd (rattach vu tx))) (Fid tx) = Some (nfidobjs vu)
    \<and> fidobjs (snd (rattach vu tx)) (nfidobjs vu)
        = \<lparr>fid_file = tree_root vu, fid_uid = Uname tx, fid_open = False\<rparr>
    \<and> Fcall.Qid (rc (snd (rattach vu tx))) = Dir.Qid (files vu (tree_root vu))
    \<and> (\<forall>f perm. Uname tx = [] \<longrightarrow>
          \<not> CheckPerm f (fid_uid (fidobjs (snd (rattach vu tx)) (nfidobjs vu))) perm)"
  using assms by (simp add: rattach_def CheckPerm_anonymous)

theorem rattach_any_uname_witness:
  "fst (rattach vu_booted (Tattach 7 [])) = []
    \<and> fids (conn (snd (rattach vu_booted (Tattach 7 [])))) 7 = Some 0
    \<and> fidobjs (snd (rattach vu_booted (Tattach 7 []))) 0
        = \<lparr>fid_file = 0, fid_uid = [], fid_open = False\<rparr>
    \<and> (\<forall>f perm. \<not> CheckPerm f (fid_uid (fidobjs (snd (rattach vu_booted (Tattach 7 []))) 0)) perm)"
  using rattach_any_uname [of "Tattach 7 []" vu_booted]
  by (simp add: Tattach_def booted_fields CheckPerm_anonymous)

section \<open>Version negotiation\<close>

lemma strings_Index_dot_found:
  "0 \<le> strings_Index s ''.'' \<Longrightarrow>
     \<exists>pre post. s = pre @ ''.'' @ post \<and> strings_Index s ''.'' = int (length pre)"
proof (induction s)
  case Nil
  then show ?case by simp
next
  case (Cons c cs)
  show ?case
  proof (cases "c = CHR ''.''")
    case True
    then have "c # cs = [] @ ''.'' @ cs \<and> strings_Index (c # cs) ''.'' = int (length ([] :: string))"
      by simp
    then show ?thesis by blast
  next
    case False
    with Cons.prems have nonneg: "0 \<le> strings_Index cs ''.''"
      by (simp add: Let_def split: if_splits)
    from Cons.IH [OF nonneg] obtain pre post
      where "cs = pre @ ''.'' @ post" and "strings_Index cs ''.'' = int (length pre)"
      by blast
    with False nonneg
    have "c # cs = (c # pre) @ ''.'' @ post
        \<and> strings_Index (c # cs) ''.'' = int (length (c # pre))"
      by (simp add: Let_def)
    then show ?thesis by blast
  qed
qed

lemma strings_Index_9P2000_dot:
  "strings_Index (''9P2000.'' @ rest) ''.'' = 6"
  by (simp add: Let_def)

lemma version_reply_eq:
  "version_reply ver0 =
     (if ver0 = ''9P2000'' \<or> prefix ''9P2000.'' ver0 then ''9P2000'' else ''unknown'')"
proof (cases "ver0 = ''9P2000''")
  case True
  then show ?thesis by (simp add: version_reply_def VERSION9P_def Let_def)
next
  case notexact: False
  show ?thesis
  proof (cases "prefix ''9P2000.'' ver0")
    case True
    then obtain rest where "ver0 = ''9P2000.'' @ rest"
      by (auto simp: prefix_def)
    then show ?thesis
      using strings_Index_9P2000_dot [of rest]
      by (simp add: version_reply_def VERSION9P_def Let_def)
  next
    case noprefix: False
    have "version_reply ver0 = ''unknown''"
    proof (cases "0 < strings_Index ver0 ''.''")
      case True
      then obtain pre post
        where dec: "ver0 = pre @ ''.'' @ post" and len: "strings_Index ver0 ''.'' = int (length pre)"
        using strings_Index_dot_found [of ver0] by auto
      have "take (nat (strings_Index ver0 ''.'')) ver0 = pre"
        using dec len by simp
      moreover have "pre \<noteq> ''9P2000''"
        using noprefix dec by (auto simp: prefix_def)
      ultimately show ?thesis
        using True by (simp add: version_reply_def VERSION9P_def Let_def)
    next
      case False
      then show ?thesis
        using notexact by (simp add: version_reply_def VERSION9P_def Let_def)
    qed
    then show ?thesis using notexact noprefix by simp
  qed
qed

text \<open>
  C5, as amended. The reply to a \<^verbatim>\<open>Tversion\<close> is \<^verbatim>\<open>Rversion\<close> with version \<^verbatim>\<open>9P2000\<close> exactly
  when the requested string is \<^verbatim>\<open>9P2000\<close> or starts with \<^verbatim>\<open>9P2000.\<close> (dot included), and
  with version \<^verbatim>\<open>unknown\<close> for every other string; the replied msize, which is also the
  connection's, is the requested one clamped to \<^verbatim>\<open>MAX_MSIZE\<close>. This is for a request
  handled while no other request waits on the request channel, or whose version is not
  accepted.
\<close>

theorem rversion_negotiation:
  assumes "Version tx = ''9P2000'' \<or> prefix ''9P2000.'' (Version tx) \<Longrightarrow> fcallchan vu = []"
  shows "fst (rversion k vu tx) = []
    \<and> Fcall.Type (rc (snd (rversion k vu tx))) = Rversion
    \<and> Version (rc (snd (rversion k vu tx)))
        = (if Version tx = ''9P2000'' \<or> prefix ''9P2000.'' (Version tx)
           then ''9P2000'' else ''unknown'')
    \<and> Msize (rc (snd (rversion k vu tx))) = min (Msize tx) (MAX_MSIZE k)
    \<and> msize (conn (snd (rversion k vu tx))) = min (Msize tx) (MAX_MSIZE k)"
proof -
  have msz: "(if Msize tx > MAX_MSIZE k then MAX_MSIZE k else Msize tx)
      = min (Msize tx) (MAX_MSIZE k)"
    by (auto simp: min_def)
  show ?thesis
    using assms unfolding rversion_def msz version_reply_eq Let_def
    by (cases "Version tx = ''9P2000'' \<or> prefix ''9P2000.'' (Version tx)") simp_all
qed

theorem rversion_negotiation_witness:
  "Version (rc (snd (rversion pkg0 vu_booted (Tversion 8192 ''9P2000.L'')))) = ''9P2000''
   \<and> Msize (rc (snd (rversion pkg0 vu_booted (Tversion 8192 ''9P2000.L'')))) = 8192
   \<and> fst (rversion pkg0 vu_booted (Tversion 8192 ''9P2000.L'')) = []
   \<and> fcallchan vu_booted = []"
  using rversion_negotiation [of "Tversion 8192 ''9P2000.L''" vu_booted pkg0]
  by (simp add: Tversion_def booted_fields pkg0_def)

text \<open>
  C5, the claim as stated fails: the string \<^verbatim>\<open>9P2000x\<close> has the prefix \<^verbatim>\<open>9P2000\<close> and is answered with \<^verbatim>\<open>unknown\<close>.
\<close>

theorem rversion_prefix_counterexample:
  "prefix ''9P2000'' ''9P2000x''
   \<and> fst (rversion pkg0 vu_booted (Tversion 8192 ''9P2000x'')) = []
   \<and> Fcall.Type (rc (snd (rversion pkg0 vu_booted (Tversion 8192 ''9P2000x'')))) = Rversion
   \<and> Version (rc (snd (rversion pkg0 vu_booted (Tversion 8192 ''9P2000x'')))) = ''unknown''"
  by (simp add: rversion_def version_reply_def Tversion_def VERSION9P_def Let_def)

section \<open>The handlers on the concrete server\<close>

lemmas run_defs = vu_alice_def vu_alice_d_def vu_bob_def vu_alice_g_def vu_alias_def
  vu_alias_created_def rattach_def rcreate_def rcreate_host_def rcreate_insert_def
  create_cleanup_def writeOwnership_def openflags_def info2stat_def lookup_child_def
  CheckPerm_def Tattach_def Tcreate_def Twalk_def rwalk_def
  NOFID_def OREAD_def OWRITE_def ORDWR_def OEXEC_def OTRUNC_def DMAPPEND_def DMEXCL_def
  DMWRITE_def DMEXEC_def DMREAD_def Rcreate_def host_sidecar_fails_def host_stat_fails_def

text \<open>
  C1. \<^verbatim>\<open>CheckPerm\<close> is not the reference algorithm: it has no group step. The file \<^verbatim>\<open>g\<close>
  has mode \<^verbatim>\<open>0070\<close>, owner \<open>alice\<close> and group \<open>adm\<close>, and \<open>bob\<close> is a member of \<open>adm\<close>: the
  reference algorithm grants \<open>bob\<close> read access through the group bits, \<^verbatim>\<open>CheckPerm\<close>
  denies it.
\<close>

theorem CheckPerm_ignores_group:
  "Dir.Mode (files vu_alice_g 2) = 0x38 \<and> Uid (files vu_alice_g 2) = ''alice''
   \<and> Gid (files vu_alice_g 2) = ''adm'' \<and> member0 ''bob'' ''adm''
   \<and> check_perm_ref member0 (files vu_alice_g 2) ''bob'' DMREAD
   \<and> \<not> CheckPerm (files vu_alice_g 2) ''bob'' DMREAD"
  by (simp add: run_defs boot_defs member0_def check_perm_ref_def)

text \<open>
  C2. A walk enters a directory without execute permission. The directory \<^verbatim>\<open>d\<close> has mode
  \<^verbatim>\<open>DMDIR|0700\<close> and owner \<open>alice\<close>; \<^verbatim>\<open>CheckPerm\<close> denies \<open>bob\<close> execute on it; the name
  resolves through the root's child map; and the walk of \<open>bob\<close>'s fid 1 into \<^verbatim>\<open>d\<close> as its
  first step succeeds and binds the new fid 2 to \<^verbatim>\<open>d\<close>, where the reply should have been
  \<^verbatim>\<open>permission denied\<close>.
\<close>

theorem rwalk_enters_without_exec:
  "Dir.Mode (files vu_bob 2) = DMDIR OR 0x1C0 \<and> Uid (files vu_bob 2) = ''alice''
   \<and> lookup_child (children (files vu_bob 0)) ''d'' = Some 2
   \<and> fid_of vu_bob 1 = Some \<lparr>fid_file = 0, fid_uid = ''bob'', fid_open = False\<rparr>
   \<and> fids (conn vu_bob) 2 = None
   \<and> \<not> CheckPerm (files vu_bob 2) ''bob'' DMEXEC
   \<and> fst (rwalk vu_bob (Twalk 1 2 [''d''])) = []
   \<and> fid_of (snd (rwalk vu_bob (Twalk 1 2 [''d'']))) 2
       = Some \<lparr>fid_file = 2, fid_uid = ''bob'', fid_open = False\<rparr>"
  by (simp add: run_defs boot_defs fid_of_def)

text \<open>
  C7. A walk of no names does not look at \<^verbatim>\<open>newfid\<close>: with fid 0 and fid 1 both in the
  table, the walk from fid 1 to \<^verbatim>\<open>newfid = 0\<close> succeeds and rebinds fid 0, where the reply
  should have been an error with the table unchanged. And a walk of one name with
  \<^verbatim>\<open>newfid = fid\<close> is refused as \<^verbatim>\<open>already in use\<close>.
\<close>

theorem rwalk_newfid_clobbered:
  "fid_of vu_bob 0 = Some \<lparr>fid_file = 2, fid_uid = ''alice'', fid_open = True\<rparr>
   \<and> fid_of vu_bob 1 = Some \<lparr>fid_file = 0, fid_uid = ''bob'', fid_open = False\<rparr>
   \<and> fst (rwalk vu_bob (Twalk 1 0 [])) = []
   \<and> fid_of (snd (rwalk vu_bob (Twalk 1 0 []))) 0
       = Some \<lparr>fid_file = 0, fid_uid = ''bob'', fid_open = False\<rparr>
   \<and> fst (rwalk vu_bob (Twalk 1 1 [''hello''])) = ''already in use''"
  by (simp add: run_defs boot_defs fid_of_def)

text \<open>
  C3. When the sidecar cannot be written, the created host file stays: the create of
  \<^verbatim>\<open>x\<close> opens \<^verbatim>\<open>/srv/x\<close>, fails to open \<^verbatim>\<open>/srv/x.vufs\<close>, and returns the error with no
  removal of \<^verbatim>\<open>/srv/x\<close> among the host calls, and no word of the file left on disk.
\<close>

theorem rcreate_sidecar_failure_leaves_file:
  "fst (rcreate host_sidecar_fails vu_alice (Tcreate 0 ''x'' 0x1A4 OWRITE))
     = Return ''/x: disk full''
   \<and> syslog (snd (rcreate host_sidecar_fails vu_alice (Tcreate 0 ''x'' 0x1A4 OWRITE)))
     = [SysOpenFile ''/srv/x'' {O_CREATE, O_WRONLY} 0x1A4,
        SysOpenFile ''/srv/x.vufs'' {O_TRUNC, O_WRONLY, O_CREATE} 0x180]"
  by (simp add: run_defs boot_defs)

text \<open>The sibling path: when the stat fails, the file is removed, and a failed removal is reported.\<close>

lemma rcreate_stat_failure_example:
  "fst (rcreate host_stat_fails vu_alice (Tcreate 0 ''x'' 0x1A4 OWRITE))
     = Return ''/x: stat failed (and file was left on disk)''
   \<and> last (syslog (snd (rcreate host_stat_fails vu_alice (Tcreate 0 ''x'' 0x1A4 OWRITE))))
     = SysRemove ''/srv/x''"
  by (simp add: run_defs boot_defs)

text \<open>
  C4. The directory bit of \<^verbatim>\<open>qid.type\<close> does not tell directories from files. Whatever
  \<^verbatim>\<open>Null()\<close> leaves in the \<^verbatim>\<open>Dir\<close>, the root directory and the regular file \<^verbatim>\<open>hello\<close> built by
  \<^verbatim>\<open>buildfile\<close> carry the same \<^verbatim>\<open>qid.type\<close>, the one \<^verbatim>\<open>Null()\<close> left: the bit went into
  \<^verbatim>\<open>qid.vers\<close> of the directory. The regular file has a made child map. The directory \<^verbatim>\<open>d\<close>
  made by \<^verbatim>\<open>rcreate\<close> has the bit and a nil child map, and a create inside it panics.
\<close>

theorem dir_bit_misplaced:
  "Qid.Type (Dir.Qid (files (boot k) 0)) = Qid.Type (Dir.Qid (nullDir k))
   \<and> Qid.Type (Dir.Qid (files (boot k) 1)) = Qid.Type (Dir.Qid (nullDir k))
   \<and> Vers (Dir.Qid (files (boot k) 0)) AND QTDIR = QTDIR
   \<and> Vers (Dir.Qid (files (boot k) 1)) AND QTDIR = 0
   \<and> Dir.Mode (files (boot k) 0) = 0x1FF
   \<and> children (files (boot k) 1) = Some Map.empty
   \<and> Qid.Type (Dir.Qid (files vu_alice_d 2)) AND QTDIR = QTDIR
   \<and> children (files vu_alice_d 2) = None
   \<and> fst (rcreate host0 vu_alice_d (Tcreate 0 ''y'' 0x1A4 OWRITE))
       = Panic ''assignment to entry in nil map''"
  by (simp add: run_defs boot_defs)

text \<open>
  C9, the claim as stated fails on the create handler, the only handler that opens a
  fid. After the walk of no names from fid 0 to fid 5, both numbers stand for one record.
  The create through fid 0 succeeds and binds fid 0 to a new open record on the new
  file; fid 5 still stands for the old record, not open, on the root.
\<close>

theorem rwalk_alias_counterexample:
  "fids (conn vu_alias) 5 = Some 0 \<and> fids (conn vu_alias) 0 = Some 0
   \<and> fst (rcreate host0 vu_alias (Tcreate 0 ''x'' 0x1A4 OWRITE)) = Return []
   \<and> fid_of vu_alias_created 0 = Some \<lparr>fid_file = 2, fid_uid = ''alice'', fid_open = True\<rparr>
   \<and> fid_of vu_alias_created 5 = Some \<lparr>fid_file = 0, fid_uid = ''alice'', fid_open = False\<rparr>"
  by (simp add: run_defs boot_defs fid_of_def)

section \<open>Properties of the walk\<close>

text \<open>
  The tests of lines 384 and 417 compare a value masked with \<^verbatim>\<open>QTDIR\<close> with 1. No masked
  value is 1, so neither test ever holds, and a step resolves exactly when the name does.
\<close>

lemma QTDIR_test_never: "(x :: 'a::len word) AND QTDIR \<noteq> 1"
proof
  assume "x AND QTDIR = 1"
  then have "bit (x AND (QTDIR :: 'a word)) 0 = bit (1 :: 'a word) 0"
    by simp
  then show False
    by (simp add: QTDIR_def bit_simps)
qed

lemma loop_step_eq_lookup:
  "loop_step fs uid f wn =
     (if wn = ''..'' then Some (parent (fs f)) else lookup_child (children (fs f)) wn)"
  by (simp add: loop_step_def QTDIR_test_never split: option.splits)

lemma walk_step:
  "walk fs uid i f (wn # wns) wq =
     (case loop_step fs uid f wn of
        None \<Rightarrow>
          (if i = 0
           then if wn \<noteq> ''..'' \<and> lookup_child (children (fs f)) wn = None
                then ([CHR 0x27] @ wn @ [CHR 0x27] @ '' not found'', wq, None)
                else (''permission denied'', wq, None)
           else ([], wq, None))
      | Some g \<Rightarrow> walk fs uid (Suc i) g wns (wq @ [Dir.Qid (fs g)]))"
  by (auto simp: loop_step_def split: option.splits)

lemma walk_later:
  "0 < i \<Longrightarrow>
   walk fs uid i f ws wq =
     ([], wq @ map (\<lambda>g. Dir.Qid (fs g)) (loop_trail fs uid f ws),
      if length (loop_trail fs uid f ws) = length ws then Some (last (f # loop_trail fs uid f ws)) else None)"
proof (induction ws arbitrary: i f wq)
  case Nil
  then show ?case by simp
next
  case (Cons wn wns)
  show ?case
  proof (cases "loop_step fs uid f wn")
    case None
    with Cons.prems show ?thesis
      by (simp add: walk_step del: walk.simps)
  next
    case (Some g)
    have "walk fs uid i f (wn # wns) wq = walk fs uid (Suc i) g wns (wq @ [Dir.Qid (fs g)])"
      using Some by (simp add: walk_step del: walk.simps)
    also have "\<dots> = ([], (wq @ [Dir.Qid (fs g)]) @ map (\<lambda>g. Dir.Qid (fs g)) (loop_trail fs uid g wns),
        if length (loop_trail fs uid g wns) = length wns then Some (last (g # loop_trail fs uid g wns)) else None)"
      by (rule Cons.IH) simp
    finally show ?thesis
      using Some by simp
  qed
qed

lemma walk_first:
  "walk fs uid 0 f (wn # wns) wq =
     (case loop_trail fs uid f (wn # wns) of
        [] \<Rightarrow> (fst (walk fs uid 0 f (wn # wns) wq), wq, None)
      | g # t \<Rightarrow>
          ([], wq @ map (\<lambda>g. Dir.Qid (fs g)) (g # t),
           if length (g # t) = length (wn # wns) then Some (last (g # t)) else None))"
proof (cases "loop_step fs uid f wn")
  case None
  then show ?thesis
    by (simp add: walk_step del: walk.simps)
next
  case (Some g)
  have "walk fs uid 0 f (wn # wns) wq = walk fs uid (Suc 0) g wns (wq @ [Dir.Qid (fs g)])"
    using Some by (simp add: walk_step del: walk.simps)
  then show ?thesis
    using Some by (simp add: walk_later del: walk.simps)
qed

lemma walk_first_error:
  "loop_trail fs uid f (wn # wns) = [] \<Longrightarrow> fst (walk fs uid 0 f (wn # wns) wq) \<noteq> []"
  by (cases "loop_step fs uid f wn") (simp_all add: walk_step del: walk.simps)

lemma loop_trail_length: "length (loop_trail fs uid f ws) \<le> length ws"
  by (induction ws arbitrary: f) (auto split: option.splits)

text \<open>
  What the loop does once the checks of lines 379-400 have passed (the fid is in the
  table and not open, \<^verbatim>\<open>newfid\<close> is not in the table), in terms of the loop's own steps.
  When the loop returns early at index 0, the reply is an error and the table is
  unchanged. When it returns early at a later index, the reply is a success with the
  qids of the nodes entered so far, and \<^verbatim>\<open>newfid\<close> is not bound. When it runs to its end,
  \<^verbatim>\<open>newfid\<close> is bound to a fresh record over the final node, with the uid of the original
  fid, not open.
\<close>

lemma rwalk_loop_outcomes:
  assumes "fids (conn vu) (Fid tx) = Some p"
      and "\<not> fid_open (fidobjs vu p)"
      and "fids (conn vu) (Newfid tx) = None"
      and "Wname tx \<noteq> []"
  shows "let t = loop_trail (files vu) (fid_uid (fidobjs vu p)) (fid_file (fidobjs vu p)) (Wname tx);
             vu' = snd (rwalk vu tx)
         in if t = []
            then fst (rwalk vu tx) \<noteq> [] \<and> fids (conn vu') = fids (conn vu)
            else fst (rwalk vu tx) = []
              \<and> Wqid (rc vu') = Wqid (rc vu) @ map (\<lambda>g. Dir.Qid (files vu g)) t
              \<and> (if length t < length (Wname tx)
                 then fids (conn vu') = fids (conn vu) \<and> fids (conn vu') (Newfid tx) = None
                 else fids (conn vu') = (fids (conn vu))(Newfid tx \<mapsto> nfidobjs vu)
                   \<and> fidobjs vu' (nfidobjs vu)
                       = \<lparr>fid_file = last t, fid_uid = fid_uid (fidobjs vu p), fid_open = False\<rparr>)"
proof -
  obtain wn wns where names: "Wname tx = wn # wns"
    using assms(4) by (cases "Wname tx") auto
  let ?uid = "fid_uid (fidobjs vu p)"
  let ?f = "fid_file (fidobjs vu p)"
  let ?t = "loop_trail (files vu) ?uid ?f (wn # wns)"
  let ?w = "walk (files vu) ?uid 0 ?f (wn # wns) (Wqid (rc vu))"
  have len: "length ?t \<le> length (wn # wns)"
    by (rule loop_trail_length)
  have run: "rwalk vu tx =
      (case ?w of
         (emsg, wq, None) \<Rightarrow> (emsg, vu\<lparr>rc := (rc vu)\<lparr>Wqid := wq\<rparr>\<rparr>)
       | (emsg, wq, Some g) \<Rightarrow>
           ([],
            vu\<lparr>rc := (rc vu)\<lparr>Wqid := wq\<rparr>,
               fidobjs := (fidobjs vu)(nfidobjs vu :=
                 \<lparr>fid_file = g, fid_uid = ?uid, fid_open = False\<rparr>),
               nfidobjs := Suc (nfidobjs vu),
               conn := (conn vu)\<lparr>fids := (fids (conn vu))(Newfid tx \<mapsto> nfidobjs vu)\<rparr>\<rparr>))"
    using assms(1-3) names
    by (simp add: rwalk_def QTDIR_test_never Let_def del: walk.simps)
  show ?thesis
  proof (cases ?t)
    case Nil
    then have ne: "fst ?w \<noteq> []"
      by (rule walk_first_error)
    have "?w = (fst ?w, Wqid (rc vu), None)"
      using Nil by (subst walk_first) simp
    then obtain e where weq: "?w = (e, Wqid (rc vu), None)"
      by blast
    with ne have "e \<noteq> []"
      by simp
    then have "fst (rwalk vu tx) \<noteq> [] \<and> fids (conn (snd (rwalk vu tx))) = fids (conn vu)"
      unfolding run weq by simp
    then show ?thesis
      using Nil names by (simp add: Let_def del: walk.simps loop_trail.simps)
  next
    case (Cons g t')
    then have w: "?w = ([], Wqid (rc vu) @ map (\<lambda>g. Dir.Qid (files vu g)) ?t,
           if length ?t = length (wn # wns) then Some (last ?t) else None)"
      by (subst walk_first) simp
    show ?thesis
      using Cons names len assms(3) unfolding run w
      by (auto simp add: Let_def simp del: walk.simps loop_trail.simps)
  qed
qed

lemma rwalk_loop_outcomes_example:
  "fid_of vu_bob 1 = Some \<lparr>fid_file = 0, fid_uid = ''bob'', fid_open = False\<rparr>
   \<and> fids (conn vu_bob) 2 = None
   \<and> loop_trail (files vu_bob) ''bob'' 0 [''d'', ''nope''] = [2]
   \<and> fst (rwalk vu_bob (Twalk 1 2 [''d'', ''nope''])) = []
   \<and> Wqid (rc (snd (rwalk vu_bob (Twalk 1 2 [''d'', ''nope''])))) = [Dir.Qid (files vu_bob 2)]
   \<and> fids (conn (snd (rwalk vu_bob (Twalk 1 2 [''d'', ''nope''])))) 2 = None"
proof -
  have a: "fids (conn vu_bob) (Fid (Twalk 1 2 [''d'', ''nope''])) = Some 2"
    by (simp add: run_defs boot_defs)
  have b: "\<not> fid_open (fidobjs vu_bob 2)"
    by (simp add: run_defs boot_defs)
  have c: "fids (conn vu_bob) (Newfid (Twalk 1 2 [''d'', ''nope''])) = None"
    by (simp add: run_defs boot_defs)
  have d: "Wname (Twalk 1 2 [''d'', ''nope'']) \<noteq> []"
    by (simp add: Twalk_def)
  have t: "loop_trail (files vu_bob) (fid_uid (fidobjs vu_bob 2)) (fid_file (fidobjs vu_bob 2))
      (Wname (Twalk 1 2 [''d'', ''nope''])) = [2]"
    by (simp add: run_defs boot_defs loop_step_def)
  have e: "Wqid (rc vu_bob) = []"
    by (simp add: run_defs boot_defs)
  have f: "fid_of vu_bob 1 = Some \<lparr>fid_file = 0, fid_uid = ''bob'', fid_open = False\<rparr>"
    by (simp add: run_defs boot_defs fid_of_def)
  have g: "loop_trail (files vu_bob) ''bob'' 0 [''d'', ''nope''] = [2]"
    by (simp add: run_defs boot_defs loop_step_def)
  show ?thesis
    using rwalk_loop_outcomes [OF a b c d] c f g unfolding t Let_def
    by (simp add: e Twalk_def)
qed

section \<open>The partial walk against the spec\<close>

text \<open>
  C6. \<^verbatim>\<open>rwalk\<close> departs from the partial-walk rule on two inputs. First, \<open>bob\<close> walks from
  fid 1 to the directory \<^verbatim>\<open>d\<close> (mode \<^verbatim>\<open>DMDIR|0700\<close>, owner \<open>alice\<close>), on which \<^verbatim>\<open>CheckPerm\<close>
  denies him X: by the spec's step the first name is denied, so the reply should be an
  error; the handler replies a success, with the qid of \<^verbatim>\<open>d\<close>, and binds the new fid 3 to
  \<^verbatim>\<open>d\<close>. Second, \<open>bob\<close> walks from fid 1 to \<^verbatim>\<open>hello\<close> with \<^verbatim>\<open>newfid = fid\<close>: the one name
  succeeds, so fid 1 should end on \<^verbatim>\<open>hello\<close>; the handler replies \<^verbatim>\<open>already in use\<close> and fid
  1 stays on the root.
\<close>

theorem rwalk_partial_walk_diverges:
  "fid_of vu_bob 1 = Some \<lparr>fid_file = 0, fid_uid = ''bob'', fid_open = False\<rparr>
   \<and> fids (conn vu_bob) 3 = None
   \<and> Qid.Type (Dir.Qid (files vu_bob 2)) AND QTDIR \<noteq> 0
   \<and> \<not> CheckPerm (files vu_bob 2) ''bob'' DMEXEC
   \<and> spec_trail (files vu_bob) ''bob'' 0 [''d''] = []
   \<and> fst (rwalk vu_bob (Twalk 1 3 [''d''])) = []
   \<and> Wqid (rc (snd (rwalk vu_bob (Twalk 1 3 [''d''])))) = [Dir.Qid (files vu_bob 2)]
   \<and> fid_of (snd (rwalk vu_bob (Twalk 1 3 [''d'']))) 3
       = Some \<lparr>fid_file = 2, fid_uid = ''bob'', fid_open = False\<rparr>
   \<and> spec_trail (files vu_bob) ''bob'' 0 [''hello''] = [1]
   \<and> fst (rwalk vu_bob (Twalk 1 1 [''hello''])) = ''already in use''
   \<and> fid_of (snd (rwalk vu_bob (Twalk 1 1 [''hello'']))) 1
       = Some \<lparr>fid_file = 0, fid_uid = ''bob'', fid_open = False\<rparr>"
  by (simp add: run_defs boot_defs fid_of_def spec_step_def)

section \<open>The walk of no names\<close>

lemma create_cleanup_fails: "fst (create_cleanup h vu ospath fsyspath e) \<noteq> Return []"
  by (simp add: create_cleanup_def Let_def split: option.splits)

lemma rcreate_insert_success:
  assumes "rcreate_insert h vu tc p stat = (Return [], vu2)"
  shows "fids (conn vu2) = (fids (conn vu))(Fid tc \<mapsto> nfidobjs vu)
    \<and> fidobjs vu2 = (fidobjs vu)(nfidobjs vu :=
         \<lparr>fid_file = nfiles vu, fid_uid = fid_uid (fidobjs vu p), fid_open = True\<rparr>)"
  using assms by (auto simp: rcreate_insert_def Let_def split: option.splits)

lemma rcreate_host_success:
  assumes "rcreate_host h vu tc p = (Return [], vu2)"
  shows "fids (conn vu2) = (fids (conn vu))(Fid tc \<mapsto> nfidobjs vu)
    \<and> fidobjs vu2 = (fidobjs vu)(nfidobjs vu :=
         \<lparr>fid_file = nfiles vu, fid_uid = fid_uid (fidobjs vu p), fid_open = True\<rparr>)"
proof -
  from assms obtain vu1 stat where ins: "rcreate_insert h vu1 tc p stat = (Return [], vu2)"
    and same: "fids (conn vu1) = fids (conn vu)" "fidobjs vu1 = fidobjs vu"
      "nfidobjs vu1 = nfidobjs vu" "nfiles vu1 = nfiles vu"
    using create_cleanup_fails
    by (auto simp: rcreate_host_def Let_def split: option.splits sum.splits prod.splits)
      (metis fst_conv)+
  from rcreate_insert_success [OF ins] same show ?thesis
    by simp
qed

lemma rcreate_success:
  assumes "rcreate h vu tc = (Return [], vu2)" and "fids (conn vu) (Fid tc) = Some p"
  shows "fids (conn vu2) = (fids (conn vu))(Fid tc \<mapsto> nfidobjs vu)
    \<and> fidobjs vu2 = (fidobjs vu)(nfidobjs vu :=
         \<lparr>fid_file = nfiles vu, fid_uid = fid_uid (fidobjs vu p), fid_open = True\<rparr>)"
proof -
  from assms have "rcreate_host h vu tc p = (Return [], vu2)"
    by (auto simp: rcreate_def Let_def split: if_splits)
  then show ?thesis
    by (rule rcreate_host_success)
qed

text \<open>
  C9, as amended. A walk of no names from a fid that is in the table and not open binds
  \<^verbatim>\<open>newfid\<close> to the very record of \<^verbatim>\<open>fid\<close>, not to a copy: both numbers hold one reference,
  so they share node, uid and open state, and any update of that record in place shows
  through both. A successful create through \<^verbatim>\<open>fid\<close> is no such update: it binds \<^verbatim>\<open>fid\<close> to a
  fresh open record on the new file, and \<^verbatim>\<open>newfid\<close> keeps the old record, not open, on the
  directory.
\<close>

theorem rwalk_zero_names_shares_record:
  assumes "fids (conn vu) (Fid tx) = Some p"
      and "\<not> fid_open (fidobjs vu p)"
      and "Wname tx = []"
  shows "fst (rwalk vu tx) = []
    \<and> fids (conn (snd (rwalk vu tx))) (Newfid tx) = Some p
    \<and> fids (conn (snd (rwalk vu tx))) (Fid tx) = Some p
    \<and> fidobjs (snd (rwalk vu tx)) = fidobjs vu
    \<and> fid_of (snd (rwalk vu tx)) (Newfid tx) = fid_of vu (Fid tx)
    \<and> (\<forall>F. fid_of ((snd (rwalk vu tx))\<lparr>fidobjs := (fidobjs vu)(p := F)\<rparr>) (Newfid tx) = Some F
          \<and> fid_of ((snd (rwalk vu tx))\<lparr>fidobjs := (fidobjs vu)(p := F)\<rparr>) (Fid tx) = Some F)
    \<and> (\<forall>h tc vu2.
          Fid tc = Fid tx \<and> Newfid tx \<noteq> Fid tx \<and> p < nfidobjs vu
            \<and> rcreate h (snd (rwalk vu tx)) tc = (Return [], vu2)
          \<longrightarrow> fid_of vu2 (Newfid tx) = Some (fidobjs vu p)
            \<and> fid_of vu2 (Fid tx)
                = Some \<lparr>fid_file = nfiles vu, fid_uid = fid_uid (fidobjs vu p), fid_open = True\<rparr>)"
proof -
  let ?vu1 = "snd (rwalk vu tx)"
  have run: "rwalk vu tx =
      ([], vu\<lparr>conn := (conn vu)\<lparr>fids := (fids (conn vu))(Newfid tx \<mapsto> p)\<rparr>\<rparr>)"
    using assms by (simp add: rwalk_def Let_def)
  have shr: "fst (rwalk vu tx) = []" "fids (conn ?vu1) (Newfid tx) = Some p"
    "fids (conn ?vu1) (Fid tx) = Some p" "fidobjs ?vu1 = fidobjs vu"
    "nfidobjs ?vu1 = nfidobjs vu" "nfiles ?vu1 = nfiles vu"
    using assms(1) by (simp_all add: run)
  have shared: "fid_of (?vu1\<lparr>fidobjs := (fidobjs vu)(p := F)\<rparr>) (Newfid tx) = Some F
      \<and> fid_of (?vu1\<lparr>fidobjs := (fidobjs vu)(p := F)\<rparr>) (Fid tx) = Some F" for F
    using shr by (simp add: fid_of_def)
  have rebound: "fid_of vu2 (Newfid tx) = Some (fidobjs vu p)
      \<and> fid_of vu2 (Fid tx)
          = Some \<lparr>fid_file = nfiles vu, fid_uid = fid_uid (fidobjs vu p), fid_open = True\<rparr>"
    if "Fid tc = Fid tx" and "Newfid tx \<noteq> Fid tx" and "p < nfidobjs vu"
      and ok: "rcreate h ?vu1 tc = (Return [], vu2)" for h tc vu2
  proof -
    have "fids (conn ?vu1) (Fid tc) = Some p"
      using shr that(1) by simp
    from rcreate_success [OF ok this] shr that(1-3) show ?thesis
      by (simp add: fid_of_def)
  qed
  have same: "fid_of ?vu1 (Newfid tx) = fid_of vu (Fid tx)"
    using shr assms(1) by (simp add: fid_of_def)
  show ?thesis
    using shr(1-4) same shared rebound by blast
qed

theorem rwalk_zero_names_shares_record_witness:
  "fst (rwalk vu_alice (Twalk 0 5 [])) = []
   \<and> fid_of vu_alice 0 = Some \<lparr>fid_file = 0, fid_uid = ''alice'', fid_open = False\<rparr>
   \<and> fids (conn vu_alias) 5 = Some 0
   \<and> fids (conn vu_alias) 0 = Some 0
   \<and> (\<forall>F. fid_of (vu_alias\<lparr>fidobjs := (fidobjs vu_alice)(0 := F)\<rparr>) 5 = Some F)"
proof -
  have a: "fids (conn vu_alice) (Fid (Twalk 0 5 [])) = Some 0"
    by (simp add: run_defs boot_defs)
  have b: "\<not> fid_open (fidobjs vu_alice 0)"
    by (simp add: run_defs boot_defs)
  have c: "Wname (Twalk 0 5 []) = []"
    by (simp add: Twalk_def)
  have d: "fid_of vu_alice 0 = Some \<lparr>fid_file = 0, fid_uid = ''alice'', fid_open = False\<rparr>"
    by (simp add: run_defs boot_defs fid_of_def)
  have e: "Newfid (Twalk 0 5 []) = 5" "Fid (Twalk 0 5 []) = 0"
    by (simp_all add: Twalk_def)
  show ?thesis
    using rwalk_zero_names_shares_record [OF a b c] d
    unfolding vu_alias_def [symmetric] e
    by simp
qed

section \<open>No walk is ever denied\<close>

text \<open>
  Since the entry test never holds, \<^verbatim>\<open>rwalk\<close> returns \<^verbatim>\<open>permission denied\<close> on no input.
\<close>

lemma walk_never_denies: "fst (walk fs uid i f ws wq) \<noteq> ''permission denied''"
  by (induction ws arbitrary: i f wq) (auto simp: QTDIR_test_never split: option.splits)

lemma rwalk_never_denies: "fst (rwalk vu tx) \<noteq> ''permission denied''"
proof (cases "fids (conn vu) (Fid tx)")
  case None
  then show ?thesis by (simp add: rwalk_def)
next
  case (Some p)
  obtain e wq r where w: "walk (files vu) (fid_uid (fidobjs vu p)) 0 (fid_file (fidobjs vu p))
      (Wname tx) (Wqid (rc vu)) = (e, wq, r)"
    by (metis prod_cases3)
  have "e \<noteq> ''permission denied''"
    using walk_never_denies [of "files vu" "fid_uid (fidobjs vu p)" 0 "fid_file (fidobjs vu p)"
        "Wname tx" "Wqid (rc vu)"] w by simp
  then show ?thesis
    using Some w by (cases r) (simp_all add: rwalk_def Let_def QTDIR_test_never)
qed

section \<open>Cleanup after a failed create\<close>

text \<open>
  The two paths of \<^verbatim>\<open>rcreate\<close> after the host file was made. When the sidecar cannot be
  opened or written, the handler returns the error and calls no removal of the host
  file. When the stat fails, the removal of the host file is the last host call, and
  the message is extended exactly when the removal fails.
\<close>

lemma rcreate_host_sidecar_failure:
  assumes "os_OpenFile h (filepath_Join h [Root vu, Dir.Name (files vu (fid_file (fidobjs vu p))), Fcall.Name tx]) = None"
    and "os_OpenFile h (filepath_Join h [Root vu, Dir.Name (files vu (fid_file (fidobjs vu p))), Fcall.Name tx] @ ''.vufs'') = Some e
       \<or> fp_WriteString h (filepath_Join h [Root vu, Dir.Name (files vu (fid_file (fidobjs vu p))), Fcall.Name tx] @ ''.vufs'') = Some e"
  shows "\<exists>e'. fst (rcreate_host h vu tx p)
        = Return (filepath_Join h [Dir.Name (files vu (fid_file (fidobjs vu p))), Fcall.Name tx] @ '': '' @ e')
     \<and> SysRemove (filepath_Join h [Root vu, Dir.Name (files vu (fid_file (fidobjs vu p))), Fcall.Name tx])
        \<notin> set (drop (length (syslog vu)) (syslog (snd (rcreate_host h vu tx p))))"
  using assms
  by (auto simp: rcreate_host_def writeOwnership_def Let_def split: option.splits)

lemma rcreate_host_stat_failure:
  assumes "os_OpenFile h (filepath_Join h [Root vu, Dir.Name (files vu (fid_file (fidobjs vu p))), Fcall.Name tx]) = None"
    and "os_OpenFile h (filepath_Join h [Root vu, Dir.Name (files vu (fid_file (fidobjs vu p))), Fcall.Name tx] @ ''.vufs'') = None"
    and "fp_WriteString h (filepath_Join h [Root vu, Dir.Name (files vu (fid_file (fidobjs vu p))), Fcall.Name tx] @ ''.vufs'') = None"
    and "fp_Stat h (filepath_Join h [Root vu, Dir.Name (files vu (fid_file (fidobjs vu p))), Fcall.Name tx]) = Inl e"
  shows "last (syslog (snd (rcreate_host h vu tx p)))
        = SysRemove (filepath_Join h [Root vu, Dir.Name (files vu (fid_file (fidobjs vu p))), Fcall.Name tx])
     \<and> fst (rcreate_host h vu tx p)
        = Return (filepath_Join h [Dir.Name (files vu (fid_file (fidobjs vu p))), Fcall.Name tx] @ '': '' @ e
            @ (if os_Remove h (filepath_Join h [Root vu, Dir.Name (files vu (fid_file (fidobjs vu p))), Fcall.Name tx]) = None
               then [] else '' (and file was left on disk)''))"
  using assms
  by (auto simp: rcreate_host_def writeOwnership_def create_cleanup_def Let_def split: option.splits)

end
